theory Spec2Isabelle
  imports Complex_Main
begin

section \<open>Values of the host language\<close>

text \<open>
  A JavaScript \<open>number\<close>. Finite doubles are read as the reals they denote (no rounding
  is modelled; no claim below depends on it); the three non-finite values are kept
  apart because the code's truthiness tests and \<open>Date\<close> treat them differently.
\<close>

datatype jsnum = Fin real | NaN | PosInfinity | NegInfinity

text \<open>\<open>x || undefined\<close> keeps \<open>x\<close> when it is truthy: a number other than 0 and NaN.\<close>

fun truthy_num :: "jsnum \<Rightarrow> bool" where
  "truthy_num (Fin r) = (r \<noteq> 0)"
| "truthy_num NaN = False"
| "truthy_num PosInfinity = True"
| "truthy_num NegInfinity = True"

text \<open>
  A thrown or returned error value. \<open>JsError m\<close> is \<open>new Error(m)\<close> (or a built-in
  subclass such as RangeError); \<open>ApiError m\<close> is the error object the backend client
  puts into the \<open>error\<close> field of a response.
\<close>

datatype js_error = JsError string | ApiError string

fun message :: "js_error \<Rightarrow> string" where
  "message (JsError m) = m"
| "message (ApiError m) = m"

text \<open>How an evaluation ends: with a value, or with a throw (a rejected promise).\<close>

datatype 'a completion = Return 'a | Throw js_error

text \<open>Decimal text of an integer, as a template literal prints it.\<close>

definition digit_char :: "nat \<Rightarrow> char" where
  "digit_char d = ''0123456789'' ! (d mod 10)"

fun show_nat :: "nat \<Rightarrow> string" where
  "show_nat n = (if n < 10 then [digit_char n] else show_nat (n div 10) @ [digit_char n])"

declare show_nat.simps [simp del]

definition show_int :: "int \<Rightarrow> string" where
  "show_int i = (if i < 0 then CHR ''-'' # show_nat (nat (- i)) else show_nat (nat i))"

section \<open>The remote data store\<close>

text \<open>
  Rows of the tables the code touches. Only the columns the code reads or writes are
  kept; the creation and update timestamps of a booking are never read by it.
\<close>

record ride =
  r_id :: string
  r_driver_id :: string
  r_available_seats :: int
  r_status :: string

datatype booking_status = Pending | Confirmed | Cancelled

record booking =
  b_id :: string
  b_ride_id :: string
  b_passenger_id :: string
  b_seats_booked :: int
  b_status :: booking_status

record driver_location =
  dl_driver_id :: string
  dl_latitude :: jsnum
  dl_longitude :: jsnum
  dl_heading :: "jsnum option"
  dl_speed :: "jsnum option"
  dl_last_updated :: int

record db =
  rides :: "ride list"
  bookings :: "booking list"
  driver_locations :: "driver_location list"

text \<open>The \<open>{ data, error }\<close> object the backend client resolves a request to.\<close>

record 'a response =
  resp_data :: "'a option"
  resp_error :: "js_error option"

definition ok_response :: "'a \<Rightarrow> 'a response" where
  "ok_response x = \<lparr>resp_data = Some x, resp_error = None\<rparr>"

definition empty_response :: "'a response" where
  "empty_response = \<lparr>resp_data = None, resp_error = None\<rparr>"

definition error_response :: "js_error \<Rightarrow> 'a response" where
  "error_response e = \<lparr>resp_data = None, resp_error = Some e\<rparr>"

text \<open>The requests this code sends, as they appear on the wire.\<close>

datatype request =
    SelectRide string
  | InsertBooking string string int
  | UpdateRideSeats string int int
  | DeleteBooking string
  | UpdateBookingStatus string booking_status
  | RpcUpdateRideSeats string int
  | UpsertDriverLocation driver_location

subsection \<open>What the store does with each request\<close>

text \<open>
  \<open>from('rides').select(...).eq('id', rid).single()\<close>: the rows with that id; \<open>single\<close>
  turns any row count other than one into an error.
\<close>

definition exec_select_ride :: "string \<Rightarrow> db \<Rightarrow> ride response \<times> db" where
  "exec_select_ride rid s =
     (case filter (\<lambda>r. r_id r = rid) (rides s) of
        [r] \<Rightarrow> (ok_response r, s)
      | _ \<Rightarrow> (error_response (ApiError ''PGRST116''), s))"

text \<open>
  \<open>from('bookings').insert([row]).select(...).single()\<close>: the store assigns the new
  row's id (\<open>new_id\<close>); the id is the table's primary key, so a duplicate is refused.
\<close>

definition exec_insert_booking ::
  "string \<Rightarrow> string \<Rightarrow> string \<Rightarrow> int \<Rightarrow> db \<Rightarrow> booking response \<times> db" where
  "exec_insert_booking new_id rid pid seats s =
     (if new_id \<in> set (map b_id (bookings s))
      then (error_response (ApiError ''23505''), s)
      else (let row = \<lparr>b_id = new_id, b_ride_id = rid, b_passenger_id = pid,
                         b_seats_booked = seats, b_status = Pending\<rparr>
            in (ok_response row, s\<lparr>bookings := bookings s @ [row]\<rparr>)))"

text \<open>
  \<open>from('rides').update({available_seats: v}).eq('id', rid).eq('available_seats', old)\<close>,
  with no \<open>select\<close>: every row passing both filters is rewritten. The response carries
  neither rows nor a count, and a filter that no row passes is not an error.
\<close>

definition seat_filter :: "string \<Rightarrow> int \<Rightarrow> ride \<Rightarrow> bool" where
  "seat_filter rid old r = (r_id r = rid \<and> r_available_seats r = old)"

definition rows_affected :: "string \<Rightarrow> int \<Rightarrow> db \<Rightarrow> nat" where
  "rows_affected rid old s = length (filter (seat_filter rid old) (rides s))"

definition exec_update_ride_seats :: "string \<Rightarrow> int \<Rightarrow> int \<Rightarrow> db \<Rightarrow> unit response \<times> db" where
  "exec_update_ride_seats rid old v s =
     (empty_response,
      s\<lparr>rides := map (\<lambda>r. if seat_filter rid old r then r\<lparr>r_available_seats := v\<rparr> else r)
                      (rides s)\<rparr>)"

text \<open>\<open>from('bookings').delete().eq('id', bid)\<close>.\<close>

definition exec_delete_booking :: "string \<Rightarrow> db \<Rightarrow> unit response \<times> db" where
  "exec_delete_booking bid s =
     (empty_response, s\<lparr>bookings := filter (\<lambda>b. b_id b \<noteq> bid) (bookings s)\<rparr>)"

text \<open>
  \<open>from('bookings').update({status}).eq('id', bid).select(...).single()\<close>: the row is
  rewritten and returned, joined with its ride (\<open>rides\<close> is null when the ride row is
  missing); a row count other than one is an error and nothing is written.
\<close>

definition exec_update_booking_status ::
  "string \<Rightarrow> booking_status \<Rightarrow> db \<Rightarrow> (booking \<times> ride option) response \<times> db" where
  "exec_update_booking_status bid st s =
     (case filter (\<lambda>b. b_id b = bid) (bookings s) of
        [b] \<Rightarrow>
          (ok_response (b\<lparr>b_status := st\<rparr>, find (\<lambda>r. r_id r = b_ride_id b) (rides s)),
           s\<lparr>bookings := map (\<lambda>x. if b_id x = bid then x\<lparr>b_status := st\<rparr> else x) (bookings s)\<rparr>)
      | _ \<Rightarrow> (error_response (ApiError ''PGRST116''), s))"

text \<open>
  \<open>from('driver_locations').upsert(row)\<close>: one row per driver, overwritten by each
  update.
\<close>

definition exec_upsert_driver_location :: "driver_location \<Rightarrow> db \<Rightarrow> unit response \<times> db" where
  "exec_upsert_driver_location row s =
     (empty_response,
      s\<lparr>driver_locations :=
           (if dl_driver_id row \<in> set (map dl_driver_id (driver_locations s))
            then map (\<lambda>x. if dl_driver_id x = dl_driver_id row then row else x) (driver_locations s)
            else driver_locations s @ [row])\<rparr>)"

subsection \<open>The world outside this client\<close>

text \<open>
  Everything the code cannot control is a parameter. For the \<open>k\<close>-th request sent
  (counted over the journal): \<open>concurrent k\<close> is what other clients did to the store
  since the previous request, and \<open>call_outcome k\<close> says whether the request is
  answered normally, answered with an error object, or the call itself rejects.
  \<open>generated_id\<close> is the id the store gives the next inserted booking.
  \<open>update_ride_seats\<close> is the stored procedure of that name; its body is not part of
  this code base, so its effect on the store is left open.
\<close>

datatype outcome = Ok | Err js_error | Rejects js_error

record remote =
  call_outcome :: "nat \<Rightarrow> outcome"
  concurrent :: "nat \<Rightarrow> db \<Rightarrow> db"
  generated_id :: string
  update_ride_seats :: "string \<Rightarrow> int \<Rightarrow> db \<Rightarrow> db"
  api_error_is_Error :: bool

text \<open>
  The store together with the journal of requests this client has sent; each entry
  keeps the store as it stood right after the request was handled.
\<close>

record world =
  store :: db
  journal :: "(request \<times> db) list"

definition arrive :: "remote \<Rightarrow> world \<Rightarrow> db" where
  "arrive env w = concurrent env (length (journal w)) (store w)"

definition settle :: "request \<Rightarrow> db \<Rightarrow> world \<Rightarrow> world" where
  "settle rq s w = \<lparr>store = s, journal = journal w @ [(rq, s)]\<rparr>"

definition issue ::
  "remote \<Rightarrow> request \<Rightarrow> (db \<Rightarrow> 'a response \<times> db) \<Rightarrow> world \<Rightarrow> 'a response completion \<times> world" where
  "issue env rq exec w =
     (case call_outcome env (length (journal w)) of
        Rejects e \<Rightarrow> (Throw e, settle rq (arrive env w) w)
      | Err e \<Rightarrow> (Return (error_response e), settle rq (arrive env w) w)
      | Ok \<Rightarrow> (case exec (arrive env w) of (r, s') \<Rightarrow> (Return r, settle rq s' w)))"

definition instanceof_Error :: "remote \<Rightarrow> js_error \<Rightarrow> bool" where
  "instanceof_Error env e = (case e of JsError _ \<Rightarrow> True | ApiError _ \<Rightarrow> api_error_is_Error env)"

section \<open>The booking service\<close>

record create_booking_params =
  p_ride_id :: string
  p_passenger_id :: string
  p_seats_booked :: int

record create_booking_result =
  cb_booking :: "booking option"
  cb_error :: "js_error option"

text \<open>
  The \<open>try\<close> block of \<open>createBooking\<close>, statement by statement: read the ride, check
  it, insert the booking, write the new seat count under the filter on the old one,
  and delete the booking again when that write reports an error.
\<close>

definition createBooking_try ::
  "remote \<Rightarrow> create_booking_params \<Rightarrow> world \<Rightarrow> create_booking_result completion \<times> world" where
  "createBooking_try env params w0 =
     (case issue env (SelectRide (p_ride_id params)) (exec_select_ride (p_ride_id params)) w0 of
        (Throw e, w1) \<Rightarrow> (Throw e, w1)
      | (Return rideResponse, w1) \<Rightarrow>
          (case resp_error rideResponse of
             Some _ \<Rightarrow> (Throw (JsError ''Failed to verify ride availability''), w1)
           | None \<Rightarrow>
          (case resp_data rideResponse of
             None \<Rightarrow> (Throw (JsError ''Ride not found''), w1)
           | Some ride \<Rightarrow>
          if r_status ride \<noteq> ''active''
          then (Throw (JsError ''This ride is no longer available for booking''), w1)
          else if r_available_seats ride < p_seats_booked params
          then (Throw (JsError (''Only '' @ show_int (r_available_seats ride) @ '' seats available'')), w1)
          else
          (case issue env
                  (InsertBooking (p_ride_id params) (p_passenger_id params) (p_seats_booked params))
                  (exec_insert_booking (generated_id env) (p_ride_id params) (p_passenger_id params)
                     (p_seats_booked params)) w1 of
             (Throw e, w2) \<Rightarrow> (Throw e, w2)
           | (Return bookingResponse, w2) \<Rightarrow>
          (case resp_error bookingResponse of
             Some _ \<Rightarrow> (Throw (JsError ''Failed to create booking''), w2)
           | None \<Rightarrow>
          (case resp_data bookingResponse of
             None \<Rightarrow> (Throw (JsError ''Failed to create booking''), w2)
           | Some booking \<Rightarrow>
          (case issue env
                  (UpdateRideSeats (p_ride_id params) (r_available_seats ride)
                     (r_available_seats ride - p_seats_booked params))
                  (exec_update_ride_seats (p_ride_id params) (r_available_seats ride)
                     (r_available_seats ride - p_seats_booked params)) w2 of
             (Throw e, w3) \<Rightarrow> (Throw e, w3)
           | (Return updateResponse, w3) \<Rightarrow>
          (case resp_error updateResponse of
             Some _ \<Rightarrow>
               (if b_id booking \<noteq> []
                then (case issue env (DeleteBooking (b_id booking))
                             (exec_delete_booking (b_id booking)) w3 of
                        (Throw e, w4) \<Rightarrow> (Throw e, w4)
                      | (Return _, w4) \<Rightarrow>
                          (Throw (JsError ''Failed to update seat availability. Please try again.''), w4))
                else (Throw (JsError ''Failed to update seat availability. Please try again.''), w3))
           | None \<Rightarrow>
               (Return \<lparr>cb_booking = Some booking, cb_error = None\<rparr>, w3)))))))))"

text \<open>The \<open>catch\<close> clause turns whatever was thrown into the \<open>error\<close> field.\<close>

definition createBooking ::
  "remote \<Rightarrow> create_booking_params \<Rightarrow> world \<Rightarrow> create_booking_result completion \<times> world" where
  "createBooking env params w0 =
     (case createBooking_try env params w0 of
        (Return r, w) \<Rightarrow> (Return r, w)
      | (Throw e, w) \<Rightarrow>
          (Return \<lparr>cb_booking = None,
                   cb_error = Some (if instanceof_Error env e then e
                                    else JsError ''An unexpected error occurred'')\<rparr>, w))"

datatype decision = Approved | Rejected

record handle_booking_result =
  hb_success :: bool
  hb_error :: "string option"

definition handleBookingRequest_try ::
  "remote \<Rightarrow> string \<Rightarrow> decision \<Rightarrow> world \<Rightarrow> handle_booking_result completion \<times> world" where
  "handleBookingRequest_try env bookingId status w0 =
     (let bookingStatus = (if status = Approved then Confirmed else Cancelled) in
      case issue env (UpdateBookingStatus bookingId bookingStatus)
             (exec_update_booking_status bookingId bookingStatus) w0 of
        (Throw e, w1) \<Rightarrow> (Throw e, w1)
      | (Return updateResponse, w1) \<Rightarrow>
          (case resp_error updateResponse of
             Some updateError \<Rightarrow> (Throw updateError, w1)
           | None \<Rightarrow>
          (case resp_data updateResponse of
             None \<Rightarrow> (Throw (JsError ''Booking not found''), w1)
           | Some (booking, joined) \<Rightarrow>
          (case (if status = Approved then joined else None) of
             Some r \<Rightarrow>
               (case issue env (RpcUpdateRideSeats (r_id r) (b_seats_booked booking))
                       (\<lambda>s. (empty_response :: unit response,
                              update_ride_seats env (r_id r) (b_seats_booked booking) s)) w1 of
                  (Throw e, w2) \<Rightarrow> (Throw e, w2)
                | (Return seatsResponse, w2) \<Rightarrow>
                    (case resp_error seatsResponse of
                       Some seatsError \<Rightarrow> (Throw seatsError, w2)
                     | None \<Rightarrow> (Return \<lparr>hb_success = True, hb_error = None\<rparr>, w2)))
           | None \<Rightarrow> (Return \<lparr>hb_success = True, hb_error = None\<rparr>, w1)))))"

definition handleBookingRequest ::
  "remote \<Rightarrow> string \<Rightarrow> decision \<Rightarrow> world \<Rightarrow> handle_booking_result completion \<times> world" where
  "handleBookingRequest env bookingId status w0 =
     (case handleBookingRequest_try env bookingId status w0 of
        (Return r, w) \<Rightarrow> (Return r, w)
      | (Throw e, w) \<Rightarrow>
          (Return \<lparr>hb_success = False,
                   hb_error = Some (if instanceof_Error env e then message e
                                    else ''Failed to handle booking request'')\<rparr>, w))"

record update_status_result =
  ub_booking :: "booking option"
  ub_error :: "js_error option"

text \<open>\<open>updateBookingStatus\<close> has no \<open>try\<close>: it hands the response on as it is.\<close>

definition updateBookingStatus ::
  "remote \<Rightarrow> string \<Rightarrow> booking_status \<Rightarrow> world \<Rightarrow> update_status_result completion \<times> world" where
  "updateBookingStatus env bookingId status w0 =
     (case issue env (UpdateBookingStatus bookingId status)
             (exec_update_booking_status bookingId status) w0 of
        (Throw e, w1) \<Rightarrow> (Throw e, w1)
      | (Return r, w1) \<Rightarrow>
          (Return \<lparr>ub_booking = map_option fst (resp_data r), ub_error = resp_error r\<rparr>, w1))"

text \<open>Reading a booking's status out of a store.\<close>

definition status_of :: "string \<Rightarrow> db \<Rightarrow> booking_status list" where
  "status_of bid s = map b_status (filter (\<lambda>b. b_id b = bid) (bookings s))"

definition requests :: "world \<Rightarrow> request list" where
  "requests w = map fst (journal w)"

text \<open>The journal entries added between an earlier world and a later one.\<close>

definition sent :: "world \<Rightarrow> world \<Rightarrow> (request \<times> db) list" where
  "sent w w' = drop (length (journal w)) (journal w')"

text \<open>Whether every request added between the two worlds was answered normally.\<close>

definition all_answered :: "remote \<Rightarrow> world \<Rightarrow> world \<Rightarrow> bool" where
  "all_answered env w w' =
     list_all (\<lambda>k. call_outcome env k = Ok) [length (journal w)..<length (journal w')]"

section \<open>The location service\<close>

record location =
  l_latitude :: jsnum
  l_longitude :: jsnum
  l_heading :: "jsnum option"
  l_speed :: "jsnum option"
  l_timestamp :: jsnum

text \<open>
  \<open>new Date(t).toISOString()\<close>: the time value is \<open>t\<close> truncated to whole milliseconds
  when \<open>t\<close> is finite and at most 8.64e15 in magnitude; otherwise the date is invalid
  and \<open>toISOString\<close> throws a RangeError. The model keeps the instant, not its text.
\<close>

definition time_clip :: "jsnum \<Rightarrow> int option" where
  "time_clip t =
     (case t of
        Fin r \<Rightarrow> (if \<bar>r\<bar> \<le> 8640000000000000
                  then Some (if 0 \<le> r then \<lfloor>r\<rfloor> else \<lceil>r\<rceil>) else None)
      | _ \<Rightarrow> None)"

definition toISOString :: "jsnum \<Rightarrow> int completion" where
  "toISOString t =
     (case time_clip t of None \<Rightarrow> Throw (JsError ''Invalid time value'') | Some i \<Rightarrow> Return i)"

record update_location_result =
  ul_error :: "js_error option"

definition updateDriverLocation_try ::
  "remote \<Rightarrow> string \<Rightarrow> location \<Rightarrow> world \<Rightarrow> update_location_result completion \<times> world" where
  "updateDriverLocation_try env driverId loc w0 =
     (case toISOString (l_timestamp loc) of
        Throw e \<Rightarrow> (Throw e, w0)
      | Return instant \<Rightarrow>
          (let row = \<lparr>dl_driver_id = driverId, dl_latitude = l_latitude loc,
                      dl_longitude = l_longitude loc, dl_heading = l_heading loc,
                      dl_speed = l_speed loc, dl_last_updated = instant\<rparr> in
           case issue env (UpsertDriverLocation row) (exec_upsert_driver_location row) w0 of
             (Throw e, w1) \<Rightarrow> (Throw e, w1)
           | (Return r, w1) \<Rightarrow>
               (case resp_error r of
                  Some e \<Rightarrow> (Throw e, w1)
                | None \<Rightarrow> (Return \<lparr>ul_error = None\<rparr>, w1))))"

definition updateDriverLocation ::
  "remote \<Rightarrow> string \<Rightarrow> location \<Rightarrow> world \<Rightarrow> update_location_result completion \<times> world" where
  "updateDriverLocation env driverId loc w0 =
     (case updateDriverLocation_try env driverId loc w0 of
        (Return r, w) \<Rightarrow> (Return r, w)
      | (Throw e, w) \<Rightarrow> (Return \<lparr>ul_error = Some e\<rparr>, w))"

subsection \<open>Live location tracking\<close>

record position_options =
  po_enableHighAccuracy :: "bool option"
  po_maximumAge :: "jsnum option"
  po_timeout :: "jsnum option"

record coordinates =
  c_latitude :: jsnum
  c_longitude :: jsnum
  c_heading :: "jsnum option"
  c_speed :: "jsnum option"

record position =
  coords :: coordinates
  timestamp :: jsnum

datatype geo_error = GeoError (code: nat)

definition PERMISSION_DENIED :: nat where "PERMISSION_DENIED = 1"
definition POSITION_UNAVAILABLE :: nat where "POSITION_UNAVAILABLE = 2"
definition TIMEOUT :: nat where "TIMEOUT = 3"

text \<open>What the code does that an observer can see, in the order it does it.\<close>

datatype event =
    ConsoleWarn string "geo_error option"
  | ConsoleError string "geo_error option"
  | GetCurrentPosition position_options
  | SetTimeout nat
  | WatchPosition position_options
  | OnLocationUpdate location

text \<open>How the browser answers one call of \<open>getCurrentPosition\<close>.\<close>

datatype attempt = is_Fix: Fix (fixed: position) | is_Fails: Fails (failure: geo_error) | NoAnswer

datatype promise_state = Resolved position | RejectedWith geo_error | StillPending

definition or_undefined :: "jsnum option \<Rightarrow> jsnum option" where
  "or_undefined x = (case x of None \<Rightarrow> None | Some n \<Rightarrow> if truthy_num n then Some n else None)"

definition to_location :: "position \<Rightarrow> location" where
  "to_location p =
     \<lparr>l_latitude = c_latitude (coords p), l_longitude = c_longitude (coords p),
      l_heading = or_undefined (c_heading (coords p)),
      l_speed = or_undefined (c_speed (coords p)),
      l_timestamp = timestamp p\<rparr>"

text \<open>\<open>retryOptions.timeout * 2\<close>; an absent timeout is \<open>undefined\<close>, whose double is NaN.\<close>

definition double_timeout :: "jsnum option \<Rightarrow> jsnum option" where
  "double_timeout t =
     Some (case t of None \<Rightarrow> NaN | Some (Fin r) \<Rightarrow> Fin (r * 2) | Some n \<Rightarrow> n)"

definition maxRetries :: nat where
  "maxRetries = 3"

text \<open>
  \<open>getPosition\<close>: \<open>answers i\<close> is the browser's answer to the \<open>i\<close>-th call of
  \<open>getCurrentPosition\<close>, \<open>retryCount\<close> the counter the closure shares. The result is
  how the promise settles, with the events up to then.
\<close>

function getPosition ::
  "(nat \<Rightarrow> attempt) \<Rightarrow> nat \<Rightarrow> nat \<Rightarrow> position_options \<Rightarrow> promise_state \<times> event list" where
  "getPosition answers i retryCount retryOptions =
     (case answers i of
        Fix p \<Rightarrow> (Resolved p, [GetCurrentPosition retryOptions])
      | NoAnswer \<Rightarrow> (StillPending, [GetCurrentPosition retryOptions])
      | Fails err \<Rightarrow>
          (if retryCount < maxRetries
           then (case getPosition answers (i + 1) (retryCount + 1)
                        (retryOptions\<lparr>po_timeout := double_timeout (po_timeout retryOptions)\<rparr>) of
                   (st, evs) \<Rightarrow>
                     (st, [GetCurrentPosition retryOptions,
                           ConsoleWarn (''Geolocation attempt '' @ show_nat (retryCount + 1) @ '' failed:'')
                             (Some err),
                           SetTimeout (5000 * 2 ^ (retryCount + 1 - 1))] @ evs))
           else (RejectedWith err,
                 [GetCurrentPosition retryOptions,
                  ConsoleWarn (''Geolocation attempt '' @ show_nat (retryCount + 1) @ '' failed:'')
                    (Some err)])))"
  by pat_completeness auto
termination
  by (relation "measure (\<lambda>(answers, i, retryCount, retryOptions). maxRetries - retryCount)") auto

declare getPosition.simps [simp del]

text \<open>The \<open>then\<close> and \<open>catch\<close> handlers on the promise of the first call.\<close>

definition initial_position :: "(nat \<Rightarrow> attempt) \<Rightarrow> position_options \<Rightarrow> event list" where
  "initial_position answers options =
     (case getPosition answers 0 0 options of
        (Resolved p, evs) \<Rightarrow> evs @ [OnLocationUpdate (to_location p)]
      | (RejectedWith err, evs) \<Rightarrow>
          evs @ [ConsoleWarn ''Failed to get initial position after retries:'' (Some err)]
      | (StillPending, evs) \<Rightarrow> evs)"

text \<open>The two callbacks handed to \<open>watchPosition\<close>.\<close>

definition watch_success :: "position \<Rightarrow> event list" where
  "watch_success p = [OnLocationUpdate (to_location p)]"

definition watch_error :: "geo_error \<Rightarrow> event list" where
  "watch_error err =
     [ConsoleError ''Error watching position:'' (Some err),
      (if code err = PERMISSION_DENIED then ConsoleWarn ''Location permission denied'' None
       else if code err = POSITION_UNAVAILABLE then ConsoleWarn ''Location information unavailable'' None
       else if code err = TIMEOUT then ConsoleWarn ''Location request timed out'' None
       else ConsoleError ''Unknown error getting location:'' (Some err))]"

definition watch_callback :: "geo_error + position \<Rightarrow> event list" where
  "watch_callback x = (case x of Inl err \<Rightarrow> watch_error err | Inr p \<Rightarrow> watch_success p)"

text \<open>
  The browser: whether \<open>navigator.geolocation\<close> exists, its answers to the one-shot
  calls, what the watch delivers over time, and the id \<open>watchPosition\<close> returns.
\<close>

record browser =
  geolocation :: bool
  answers :: "nat \<Rightarrow> attempt"
  watch_feed :: "(geo_error + position) list"
  watch_id :: nat

datatype cleanup = NoOp | ClearWatch nat

record tracking =
  t_cleanup :: cleanup
  t_setup :: "event list"
  t_oneshot :: "event list"
  t_watch :: "event list"

definition default_options :: position_options where
  "default_options =
     \<lparr>po_enableHighAccuracy = Some True, po_maximumAge = Some (Fin 30000),
      po_timeout = Some (Fin 30000)\<rparr>"

text \<open>
  \<open>startLocationTracking\<close>. The one-shot chain and the watch run on their own clocks,
  so each has its own event list.
\<close>

definition startLocationTracking :: "browser \<Rightarrow> position_options option \<Rightarrow> tracking" where
  "startLocationTracking br opts =
     (let options = (case opts of None \<Rightarrow> default_options | Some x \<Rightarrow> x) in
      if \<not> geolocation br
      then \<lparr>t_cleanup = NoOp,
            t_setup = [ConsoleWarn ''Geolocation is not supported by this browser.'' None],
            t_oneshot = [], t_watch = []\<rparr>
      else \<lparr>t_cleanup = ClearWatch (watch_id br),
            t_setup = [WatchPosition options],
            t_oneshot = initial_position (answers br) options,
            t_watch = concat (map watch_callback (watch_feed br))\<rparr>)"


fun updates :: "event list \<Rightarrow> location list" where
  "updates [] = []"
| "updates (OnLocationUpdate l # evs) = l # updates evs"
| "updates (_ # evs) = updates evs"

fun api_calls :: "event list \<Rightarrow> nat" where
  "api_calls [] = 0"
| "api_calls (GetCurrentPosition _ # evs) = Suc (api_calls evs)"
| "api_calls (WatchPosition _ # evs) = Suc (api_calls evs)"
| "api_calls (SetTimeout _ # evs) = Suc (api_calls evs)"
| "api_calls (_ # evs) = api_calls evs"




subsection \<open>Geocoding\<close>

text \<open>
  Strings are byte strings in UTF-8. \<open>encodeURIComponent\<close> keeps the unreserved ASCII
  characters and writes every other byte as \<open>%XX\<close>.
\<close>

definition unreserved :: "char \<Rightarrow> bool" where
  "unreserved c =
     (c \<in> set ''ABCDEFGHIJKLMNOPQRSTUVWXYZabcdefghijklmnopqrstuvwxyz0123456789-_.!~*()''
      \<or> c = CHR 0x27)"

definition hex_digit :: "nat \<Rightarrow> char" where
  "hex_digit d = ''0123456789ABCDEF'' ! (d mod 16)"

definition encodeURIComponent :: "string \<Rightarrow> string" where
  "encodeURIComponent str =
     concat (map (\<lambda>c. if unreserved c then [c]
                       else [CHR ''%'', hex_digit (of_char c div 16), hex_digit (of_char c)]) str)"

record place =
  lat :: string
  lon :: string
  display_name :: string

datatype json = JsonNull | JsonArray "place list"

record http_response =
  hr_ok :: bool
  hr_statusText :: string
  hr_json :: "json completion"

datatype fetched = FetchRejects js_error | Responds http_response

record geocoded =
  g_lat :: jsnum
  g_lng :: jsnum
  g_name :: string

definition nominatimUrl :: string where
  "nominatimUrl = ''https://nominatim.openstreetmap.org/search''"

definition scoped_url :: "string \<Rightarrow> string" where
  "scoped_url locationName =
     nominatimUrl @ ''?format=json&q='' @ encodeURIComponent locationName @ '', Gujarat, India''"

definition unscoped_url :: "string \<Rightarrow> string" where
  "unscoped_url locationName = nominatimUrl @ ''?format=json&q='' @ encodeURIComponent locationName"

text \<open>\<open>!data || data.length === 0\<close>\<close>

definition no_results :: "json \<Rightarrow> bool" where
  "no_results d = (case d of JsonNull \<Rightarrow> True | JsonArray ps \<Rightarrow> ps = [])"

text \<open>One \<open>fetch\<close> followed by the \<open>ok\<close> test and \<open>response.json()\<close>.\<close>

definition fetch_json :: "(string \<Rightarrow> fetched) \<Rightarrow> string \<Rightarrow> json completion" where
  "fetch_json fetch url =
     (case fetch url of
        FetchRejects e \<Rightarrow> Throw e
      | Responds response \<Rightarrow>
          (if \<not> hr_ok response then Throw (JsError (''Geocoding failed: '' @ hr_statusText response))
           else hr_json response))"

text \<open>The tail of the \<open>try\<close> block: \<open>data[0]\<close> when there is one.\<close>

definition located :: "(string \<Rightarrow> jsnum) \<Rightarrow> place \<Rightarrow> geocoded" where
  "located parseFloat p =
     \<lparr>g_lat = parseFloat (lat p), g_lng = parseFloat (lon p),
      g_name = takeWhile (\<lambda>c. c \<noteq> CHR '','') (display_name p)\<rparr>"

definition first_match :: "(string \<Rightarrow> jsnum) \<Rightarrow> json \<Rightarrow> geocoded option" where
  "first_match parseFloat d =
     (case d of JsonArray (p # _) \<Rightarrow> Some (located parseFloat p) | _ \<Rightarrow> None)"

text \<open>
  \<open>geocodeLocation\<close>: the result and the URLs fetched, in order. \<open>parseFloat\<close> is the
  built-in; \<open>fetch\<close> is the geocoding service as seen through the network.
\<close>

definition geocodeLocation_try ::
  "(string \<Rightarrow> jsnum) \<Rightarrow> (string \<Rightarrow> fetched) \<Rightarrow> string \<Rightarrow> geocoded option completion \<times> string list" where
  "geocodeLocation_try parseFloat fetch locationName =
     (case fetch_json fetch (scoped_url locationName) of
        Throw e \<Rightarrow> (Throw e, [scoped_url locationName])
      | Return d \<Rightarrow>
          (if no_results d
           then (case fetch_json fetch (unscoped_url locationName) of
                   Throw e \<Rightarrow> (Throw e, [scoped_url locationName, unscoped_url locationName])
                 | Return d' \<Rightarrow>
                     (Return (first_match parseFloat d'),
                      [scoped_url locationName, unscoped_url locationName]))
           else (Return (first_match parseFloat d), [scoped_url locationName])))"

definition geocodeLocation ::
  "(string \<Rightarrow> jsnum) \<Rightarrow> (string \<Rightarrow> fetched) \<Rightarrow> string \<Rightarrow> geocoded option completion \<times> string list" where
  "geocodeLocation parseFloat fetch locationName =
     (case geocodeLocation_try parseFloat fetch locationName of
        (Return r, urls) \<Rightarrow> (Return r, urls)
      | (Throw e, urls) \<Rightarrow> (Return None, urls))"

section \<open>Concrete scenarios\<close>

text \<open>
  A store with one active ride that has two seats left, a remote side on which every
  request is answered normally and nobody else writes, and one on which another
  passenger takes both seats just before this client's third request arrives.
\<close>

definition example_ride :: ride where
  "example_ride =
     \<lparr>r_id = ''r1'', r_driver_id = ''d1'', r_available_seats = 2, r_status = ''active''\<rparr>"

definition example_world :: world where
  "example_world =
     \<lparr>store = \<lparr>rides = [example_ride], bookings = [], driver_locations = []\<rparr>, journal = []\<rparr>"

definition quiet :: remote where
  "quiet =
     \<lparr>call_outcome = (\<lambda>k. Ok), concurrent = (\<lambda>k s. s), generated_id = ''b1'',
      update_ride_seats = (\<lambda>rid n s. s), api_error_is_Error = False\<rparr>"

definition racing :: remote where
  "racing =
     quiet\<lparr>concurrent := (\<lambda>k s. if k = 2
                then s\<lparr>rides := map (\<lambda>r. r\<lparr>r_available_seats := 0\<rparr>) (rides s)\<rparr> else s)\<rparr>"

definition seats_request :: "int \<Rightarrow> create_booking_params" where
  "seats_request n = \<lparr>p_ride_id = ''r1'', p_passenger_id = ''u1'', p_seats_booked = n\<rparr>"

definition example_booking :: "booking_status \<Rightarrow> booking" where
  "example_booking st =
     \<lparr>b_id = ''b0'', b_ride_id = ''r1'', b_passenger_id = ''u0'', b_seats_booked = 1,
      b_status = st\<rparr>"

definition booked_world :: "booking_status \<Rightarrow> world" where
  "booked_world st =
     \<lparr>store = \<lparr>rides = [example_ride], bookings = [example_booking st], driver_locations = []\<rparr>,
      journal = []\<rparr>"

definition example_location :: location where
  "example_location =
     \<lparr>l_latitude = Fin 23, l_longitude = Fin 72.5, l_heading = None, l_speed = Some (Fin 12),
      l_timestamp = Fin 1700000000000\<rparr>"

text \<open>
  A browser whose one-shot calls all time out, one that gets a fix on the third call,
  and one without a geolocation API. The watch delivers a position, an error and a
  second position.
\<close>

definition example_position :: "real \<Rightarrow> position" where
  "example_position t =
     \<lparr>coords = \<lparr>c_latitude = Fin 23, c_longitude = Fin 72.5, c_heading = Some (Fin 0),
                c_speed = Some (Fin 12)\<rparr>,
      timestamp = Fin t\<rparr>"

definition stubborn_browser :: browser where
  "stubborn_browser =
     \<lparr>geolocation = True, answers = (\<lambda>i. Fails (GeoError 3)),
      watch_feed = [Inr (example_position 1), Inl (GeoError 2), Inr (example_position 2)],
      watch_id = 7\<rparr>"


definition bare_browser :: browser where
  "bare_browser = stubborn_browser\<lparr>geolocation := False\<rparr>"

text \<open>A geocoding service that knows one place, and only without the regional suffix.\<close>

definition example_place :: place where
  "example_place =
     \<lparr>lat = ''19.07'', lon = ''72.87'', display_name = ''Mumbai, Maharashtra, India''\<rparr>"

definition example_service :: "string \<Rightarrow> fetched" where
  "example_service url =
     Responds \<lparr>hr_ok = True, hr_statusText = ''OK'',
               hr_json = Return (JsonArray (if url = nominatimUrl @ ''?format=json&q=Mumbai''
                                            then [example_place] else []))\<rparr>"

text \<open>
  A service that finds a place under the regional suffix; a network on which every
  fetch rejects; a service that refuses every request, with a body that would parse to a
  match; one whose body does not parse; and one that has nothing under the regional
  suffix and refuses the request that follows.
\<close>

definition regional_service :: "string \<Rightarrow> fetched" where
  "regional_service url =
     Responds \<lparr>hr_ok = True, hr_statusText = ''OK'',
               hr_json = Return (JsonArray
                 [\<lparr>lat = ''21.17'', lon = ''72.83'', display_name = ''Surat, Gujarat, India''\<rparr>,
                  example_place])\<rparr>"

definition offline_service :: "string \<Rightarrow> fetched" where
  "offline_service url = FetchRejects (JsError ''Failed to fetch'')"

definition refusing_service :: "string \<Rightarrow> fetched" where
  "refusing_service url =
     Responds \<lparr>hr_ok = False, hr_statusText = ''Too Many Requests'',
               hr_json = Return (JsonArray [example_place])\<rparr>"

definition garbled_service :: "string \<Rightarrow> fetched" where
  "garbled_service url =
     Responds \<lparr>hr_ok = True, hr_statusText = ''OK'',
               hr_json = Throw (JsError ''Unexpected token < in JSON'')\<rparr>"

definition fading_service :: "string \<Rightarrow> fetched" where
  "fading_service url =
     (if url = nominatimUrl @ ''?format=json&q=Mumbai, Gujarat, India''
      then Responds \<lparr>hr_ok = True, hr_statusText = ''OK'', hr_json = Return (JsonArray [])\<rparr>
      else refusing_service url)"

definition example_parseFloat :: "string \<Rightarrow> jsnum" where
  "example_parseFloat str =
     (if str = ''19.07'' then Fin 19.07 else if str = ''72.87'' then Fin 72.87
      else if str = ''21.17'' then Fin 21.17 else if str = ''72.83'' then Fin 72.83 else NaN)"

section \<open>Facts about the store\<close>

lemmas scenario_defs = example_ride_def example_world_def quiet_def racing_def seats_request_def
  example_booking_def booked_world_def

lemmas store_defs = issue_def arrive_def settle_def exec_select_ride_def exec_insert_booking_def
  exec_update_ride_seats_def exec_delete_booking_def exec_update_booking_status_def
  ok_response_def empty_response_def error_response_def seat_filter_def rows_affected_def
  requests_def status_of_def sent_def

lemma issue_Ok:
  "call_outcome env (length (journal w)) = Ok \<Longrightarrow>
   issue env rq exec w = (Return (fst (exec (arrive env w))), settle rq (snd (exec (arrive env w))) w)"
  by (simp add: issue_def split: prod.splits)

lemma issue_Err:
  "call_outcome env (length (journal w)) = Err e \<Longrightarrow>
   issue env rq exec w = (Return (error_response e), settle rq (arrive env w) w)"
  by (simp add: issue_def)

lemma issue_Rejects:
  "call_outcome env (length (journal w)) = Rejects e \<Longrightarrow>
   issue env rq exec w = (Throw e, settle rq (arrive env w) w)"
  by (simp add: issue_def)

lemma requests_settle: "requests (settle rq s w) = requests w @ [rq]"
  by (simp add: requests_def settle_def)

lemma store_settle: "store (settle rq s w) = s"
  by (simp add: settle_def)

lemma journal_settle: "journal (settle rq s w) = journal w @ [(rq, s)]"
  by (simp add: settle_def)

lemma issue_journal: "\<exists>s. journal (snd (issue env rq exec w)) = journal w @ [(rq, s)]"
  by (cases "call_outcome env (length (journal w))")
     (simp_all add: issue_def settle_def split: prod.splits)

lemma issue_length:
  "issue env rq exec w = (c, w1) \<Longrightarrow> length (journal w1) = Suc (length (journal w))"
  using issue_journal [of env rq exec w] by auto

lemma issue_requests:
  "issue env rq exec w = (c, w1) \<Longrightarrow> requests w1 = requests w @ [rq]"
  using issue_journal [of env rq exec w] by (auto simp: requests_def)

lemma exec_update_ride_seats_no_error:
  "resp_error (fst (exec_update_ride_seats rid old v s)) = None"
  by (simp add: exec_update_ride_seats_def empty_response_def)

lemma issue_split:
  assumes "issue env rq exec w = (c, w1)"
  shows "length (journal w1) = Suc (length (journal w)) \<and> requests w1 = requests w @ [rq]
       \<and> (call_outcome env (length (journal w)) = Ok \<longrightarrow> c = Return (fst (exec (arrive env w))))"
proof -
  have "c = Return (fst (exec (arrive env w)))" if "call_outcome env (length (journal w)) = Ok"
    using assms by (simp add: issue_Ok [OF that])
  with issue_length [OF assms] issue_requests [OF assms] show ?thesis by simp
qed

lemma arrive_quiet: "(\<And>k s. concurrent env k s = s) \<Longrightarrow> arrive env w = store w"
  by (simp add: arrive_def)

lemma filter_id_update_seats:
  "filter (\<lambda>r. r_id r = rid)
     (map (\<lambda>r. if seat_filter rid' old r then r\<lparr>r_available_seats := v\<rparr> else r) rs)
   = map (\<lambda>r. if seat_filter rid' old r then r\<lparr>r_available_seats := v\<rparr> else r)
       (filter (\<lambda>r. r_id r = rid) rs)"
  by (induction rs) auto

section \<open>Booking creation\<close>

text \<open>
  C4. When the ride row read at the start of \<open>createBooking\<close> has fewer available seats
  than the request asks for, the operation returns an error result with no booking,
  and the read is the only request it sends: the store is left as the read found it,
  so no booking row is inserted.
\<close>

theorem createBooking_insufficient_seats:
  assumes "call_outcome env (length (journal w)) = Ok"
    and "filter (\<lambda>r. r_id r = p_ride_id params) (rides (arrive env w)) = [ride]"
    and "r_available_seats ride < p_seats_booked params"
  shows "(\<exists>e. fst (createBooking env params w) = Return \<lparr>cb_booking = None, cb_error = Some e\<rparr>)
       \<and> requests (snd (createBooking env params w)) = requests w @ [SelectRide (p_ride_id params)]
       \<and> store (snd (createBooking env params w)) = arrive env w"
  using assms
  by (simp add: createBooking_def createBooking_try_def issue_Ok exec_select_ride_def
        ok_response_def requests_settle store_settle)

theorem createBooking_insufficient_seats_witness:
  "(\<exists>e. fst (createBooking quiet (seats_request 3) example_world)
          = Return \<lparr>cb_booking = None, cb_error = Some e\<rparr>)
   \<and> requests (snd (createBooking quiet (seats_request 3) example_world)) = [SelectRide ''r1'']
   \<and> bookings (store (snd (createBooking quiet (seats_request 3) example_world))) = []"
  using createBooking_insufficient_seats [of quiet example_world "seats_request 3" example_ride]
  by (simp add: scenario_defs arrive_def requests_def)

text \<open>
  C5. When the ride row read at the start of \<open>createBooking\<close> has a status other than
  \<open>active\<close>, the operation returns an error result with no booking, and the read is the
  only request it sends: no booking row is inserted.
\<close>

theorem createBooking_inactive_ride:
  assumes "call_outcome env (length (journal w)) = Ok"
    and "filter (\<lambda>r. r_id r = p_ride_id params) (rides (arrive env w)) = [ride]"
    and "r_status ride \<noteq> ''active''"
  shows "(\<exists>e. fst (createBooking env params w) = Return \<lparr>cb_booking = None, cb_error = Some e\<rparr>)
       \<and> requests (snd (createBooking env params w)) = requests w @ [SelectRide (p_ride_id params)]
       \<and> store (snd (createBooking env params w)) = arrive env w"
  using assms
  by (simp add: createBooking_def createBooking_try_def issue_Ok exec_select_ride_def
        ok_response_def requests_settle store_settle)

theorem createBooking_inactive_ride_witness:
  "(\<exists>e. fst (createBooking quiet (seats_request 1)
               (example_world\<lparr>store := (store example_world)
                  \<lparr>rides := [example_ride\<lparr>r_status := ''completed''\<rparr>]\<rparr>\<rparr>))
          = Return \<lparr>cb_booking = None, cb_error = Some e\<rparr>)
   \<and> requests (snd (createBooking quiet (seats_request 1)
               (example_world\<lparr>store := (store example_world)
                  \<lparr>rides := [example_ride\<lparr>r_status := ''completed''\<rparr>]\<rparr>\<rparr>)))
       = [SelectRide ''r1'']
   \<and> bookings (store (snd (createBooking quiet (seats_request 1)
               (example_world\<lparr>store := (store example_world)
                  \<lparr>rides := [example_ride\<lparr>r_status := ''completed''\<rparr>]\<rparr>\<rparr>)))) = []"
  using createBooking_inactive_ride [of quiet
      "example_world\<lparr>store := (store example_world)
         \<lparr>rides := [example_ride\<lparr>r_status := ''completed''\<rparr>]\<rparr>\<rparr>"
      "seats_request 1" "example_ride\<lparr>r_status := ''completed''\<rparr>"]
  by (simp add: scenario_defs arrive_def requests_def)

text \<open>
  C6. On a store where exactly one ride has the requested id, is active and has two
  seats left, with every request answered normally, nobody else writing, and a fresh
  id for the new row: asking for three seats returns an error and leaves the bookings
  as they were; asking for two seats returns the new booking with no error, adds
  exactly that booking, and leaves the ride with 0 available seats.
\<close>

theorem createBooking_two_seats_example:
  assumes answered: "\<And>k. call_outcome env k = Ok"
    and uncontended: "\<And>k s. concurrent env k s = s"
    and ride: "filter (\<lambda>r. r_id r = rid) (rides (store w)) = [ride]"
    and seats: "r_available_seats ride = 2"
    and active: "r_status ride = ''active''"
    and fresh: "generated_id env \<notin> set (map b_id (bookings (store w)))"
  shows "(\<exists>e. fst (createBooking env \<lparr>p_ride_id = rid, p_passenger_id = pid, p_seats_booked = 3\<rparr> w)
               = Return \<lparr>cb_booking = None, cb_error = Some e\<rparr>)
       \<and> bookings (store (snd (createBooking env
             \<lparr>p_ride_id = rid, p_passenger_id = pid, p_seats_booked = 3\<rparr> w))) = bookings (store w)
       \<and> (\<exists>b. fst (createBooking env \<lparr>p_ride_id = rid, p_passenger_id = pid, p_seats_booked = 2\<rparr> w)
               = Return \<lparr>cb_booking = Some b, cb_error = None\<rparr>
             \<and> b_ride_id b = rid \<and> b_seats_booked b = 2
             \<and> bookings (store (snd (createBooking env
                   \<lparr>p_ride_id = rid, p_passenger_id = pid, p_seats_booked = 2\<rparr> w)))
                 = bookings (store w) @ [b])
       \<and> map r_available_seats (filter (\<lambda>r. r_id r = rid) (rides (store (snd (createBooking env
             \<lparr>p_ride_id = rid, p_passenger_id = pid, p_seats_booked = 2\<rparr> w))))) = [0]"
proof -
  let ?three = "\<lparr>p_ride_id = rid, p_passenger_id = pid, p_seats_booked = 3\<rparr>"
  let ?two = "\<lparr>p_ride_id = rid, p_passenger_id = pid, p_seats_booked = 2\<rparr>"
  have refused: "createBooking env ?three w
      = (Return \<lparr>cb_booking = None,
                 cb_error = Some (JsError (''Only '' @ show_int 2 @ '' seats available''))\<rparr>,
         settle (SelectRide rid) (store w) w)"
    using ride seats active
    by (simp add: createBooking_def createBooking_try_def issue_Ok answered arrive_quiet uncontended
          exec_select_ride_def ok_response_def instanceof_Error_def)
  let ?b = "\<lparr>b_id = generated_id env, b_ride_id = rid, b_passenger_id = pid,
             b_seats_booked = 2, b_status = Pending\<rparr>"
  let ?s = "(store w)\<lparr>bookings := bookings (store w) @ [?b],
              rides := map (\<lambda>r. if seat_filter rid 2 r then r\<lparr>r_available_seats := 0\<rparr> else r)
                         (rides (store w))\<rparr>"
  have accepted: "\<exists>w'. createBooking env ?two w = (Return \<lparr>cb_booking = Some ?b, cb_error = None\<rparr>, w')
      \<and> store w' = ?s"
    using ride seats active fresh
    by (simp add: createBooking_def createBooking_try_def issue_Ok answered arrive_quiet uncontended
          exec_select_ride_def exec_insert_booking_def exec_update_ride_seats_def
          ok_response_def empty_response_def store_settle journal_settle Let_def)
  have left: "map r_available_seats (filter (\<lambda>r. r_id r = rid) (rides ?s)) = [0]"
  proof -
    from ride have "ride \<in> set (filter (\<lambda>r. r_id r = rid) (rides (store w)))" by simp
    then have same: "r_id ride = rid" by simp
    have "filter (\<lambda>r. r_id r = rid) (rides ?s)
        = map (\<lambda>r. if seat_filter rid 2 r then r\<lparr>r_available_seats := 0\<rparr> else r)
            (filter (\<lambda>r. r_id r = rid) (rides (store w)))"
      by (simp add: filter_id_update_seats)
    with ride seats same show ?thesis by (simp add: seat_filter_def)
  qed
  from refused accepted left show ?thesis
    by (auto simp: store_settle)
qed

theorem createBooking_two_seats_example_witness:
  "(\<exists>e. fst (createBooking quiet (seats_request 3) example_world)
           = Return \<lparr>cb_booking = None, cb_error = Some e\<rparr>)
   \<and> bookings (store (snd (createBooking quiet (seats_request 3) example_world))) = []
   \<and> (\<exists>b. fst (createBooking quiet (seats_request 2) example_world)
           = Return \<lparr>cb_booking = Some b, cb_error = None\<rparr>
         \<and> bookings (store (snd (createBooking quiet (seats_request 2) example_world))) = [b])
   \<and> map r_available_seats
       (rides (store (snd (createBooking quiet (seats_request 2) example_world)))) = [0]"
proof -
  have run: "map r_available_seats
      (rides (store (snd (createBooking quiet (seats_request 2) example_world)))) = [0]"
    by (simp add: createBooking_def createBooking_try_def scenario_defs store_defs Let_def)
  show ?thesis
    using run createBooking_two_seats_example [of quiet "''r1''" example_world example_ride "''u1''"]
    by (auto simp: scenario_defs)
qed

text \<open>
  The rollback is tied to the error field of the update's response and to nothing
  else. Whenever \<open>createBooking\<close> has sent exactly three requests and the third was
  answered normally, the three are the read, the insert and the seat update, no
  delete follows, and the \<open>try\<close> block returns the booking with a null error, however
  many rows the update changed.
\<close>

lemma createBooking_try_no_rollback_without_error:
  assumes run: "createBooking_try env params w = (c, w')"
    and three: "length (journal w') = length (journal w) + 3"
    and answered: "call_outcome env (length (journal w) + 2) = Ok"
  shows "(\<exists>b. c = Return \<lparr>cb_booking = Some b, cb_error = None\<rparr>)
       \<and> (\<exists>old v. requests w' = requests w @
             [SelectRide (p_ride_id params),
              InsertBooking (p_ride_id params) (p_passenger_id params) (p_seats_booked params),
              UpdateRideSeats (p_ride_id params) old v])"
  using run three answered
  unfolding createBooking_try_def
  by (auto split: prod.splits completion.splits option.splits if_splits
        dest!: issue_split simp: exec_update_ride_seats_no_error)

text \<open>
  C1. The lost race, run on the code. The ride is read with two seats; the booking for
  one seat is inserted; another passenger takes both seats before the seat update
  arrives, so the update's filter on \<open>available_seats = 2\<close> passes no row. The store
  answers such an update without an error, the code tests only the error field, and so
  it sends no delete: the operation reports success and the inserted booking remains,
  on a ride with no seats left.
\<close>

theorem createBooking_lost_race_keeps_booking:
  "rows_affected ''r1'' 2
      (concurrent racing 2
         (snd (journal (snd (createBooking racing (seats_request 1) example_world)) ! 1))) = 0
   \<and> fst (createBooking racing (seats_request 1) example_world)
       = Return \<lparr>cb_booking = Some \<lparr>b_id = ''b1'', b_ride_id = ''r1'', b_passenger_id = ''u1'',
                                     b_seats_booked = 1, b_status = Pending\<rparr>,
                  cb_error = None\<rparr>
   \<and> requests (snd (createBooking racing (seats_request 1) example_world))
       = [SelectRide ''r1'', InsertBooking ''r1'' ''u1'' 1, UpdateRideSeats ''r1'' 2 1]
   \<and> map b_id (bookings (store (snd (createBooking racing (seats_request 1) example_world)))) = [''b1'']
   \<and> map r_available_seats
       (rides (store (snd (createBooking racing (seats_request 1) example_world)))) = [0]"
  by (simp add: createBooking_def createBooking_try_def scenario_defs store_defs Let_def)

section \<open>Booking status transitions\<close>

lemma status_of_rewrite:
  "status_of bid (s\<lparr>bookings := map (\<lambda>x. if b_id x = bid then x\<lparr>b_status := st\<rparr> else x) (bookings s)\<rparr>)
   = map (\<lambda>_. st) (status_of bid s)"
proof -
  have "map b_status (filter (\<lambda>b. b_id b = bid)
          (map (\<lambda>x. if b_id x = bid then x\<lparr>b_status := st\<rparr> else x) bs))
        = map (\<lambda>_. st) (map b_status (filter (\<lambda>b. b_id b = bid) bs))" for bs
    by (induction bs) auto
  then show ?thesis by (simp add: status_of_def)
qed

lemma exec_update_booking_status_one:
  assumes "filter (\<lambda>b. b_id b = bid) (bookings s) = [b]"
  shows "exec_update_booking_status bid st s
       = (ok_response (b\<lparr>b_status := st\<rparr>, find (\<lambda>r. r_id r = b_ride_id b) (rides s)),
          s\<lparr>bookings := map (\<lambda>x. if b_id x = bid then x\<lparr>b_status := st\<rparr> else x) (bookings s)\<rparr>)"
  using assms by (simp add: exec_update_booking_status_def)

lemma status_of_one:
  "filter (\<lambda>b. b_id b = bid) (bookings s) = [b] \<Longrightarrow> status_of bid s = [b_status b]"
  by (simp add: status_of_def)

lemma status_after_update:
  "status_of bid (snd (exec_update_booking_status bid st s))
   = (if length (status_of bid s) = 1 then [st] else status_of bid s)"
proof (cases "filter (\<lambda>b. b_id b = bid) (bookings s)")
  case Nil
  then show ?thesis by (simp add: exec_update_booking_status_def status_of_def)
next
  case (Cons b bs)
  show ?thesis
  proof (cases bs)
    case Nil
    with Cons have one: "filter (\<lambda>b. b_id b = bid) (bookings s) = [b]" by simp
    show ?thesis
      by (simp add: exec_update_booking_status_one [OF one] status_of_rewrite status_of_one [OF one])
  next
    case (Cons c cs)
    with \<open>filter (\<lambda>b. b_id b = bid) (bookings s) = b # bs\<close> show ?thesis
      by (simp add: exec_update_booking_status_def status_of_def)
  qed
qed

lemma find_joined:
  "rid \<in> set (map r_id rs) \<Longrightarrow> \<exists>r. find (\<lambda>r. r_id r = rid) rs = Some r \<and> r_id r = rid"
  by (induction rs) auto

lemma store_issue:
  "store (snd (issue env rq exec w))
   = (if call_outcome env (length (journal w)) = Ok then snd (exec (arrive env w)) else arrive env w)"
  by (cases "call_outcome env (length (journal w))")
     (simp_all add: issue_def settle_def split: prod.splits)

lemma handle_rejected_world:
  "snd (handleBookingRequest env bid Rejected w)
   = snd (issue env (UpdateBookingStatus bid Cancelled) (exec_update_booking_status bid Cancelled) w)"
  by (simp add: handleBookingRequest_def handleBookingRequest_try_def Let_def
        split: prod.splits completion.splits option.splits)

lemma update_status_world:
  "snd (updateBookingStatus env bid st w)
   = snd (issue env (UpdateBookingStatus bid st) (exec_update_booking_status bid st) w)"
  by (simp add: updateBookingStatus_def split: prod.splits completion.splits)

lemma handle_approved_first:
  assumes answered: "call_outcome env (length (journal w)) = Ok"
  shows "\<exists>rest. sent w (snd (handleBookingRequest env bid Approved w))
      = (UpdateBookingStatus bid Confirmed, snd (exec_update_booking_status bid Confirmed (arrive env w))) # rest"
proof -
  let ?rq = "UpdateBookingStatus bid Confirmed"
  let ?ex = "exec_update_booking_status bid Confirmed"
  let ?w1 = "settle ?rq (snd (?ex (arrive env w))) w"
  have first: "issue env ?rq ?ex w = (Return (fst (?ex (arrive env w))), ?w1)"
    by (rule issue_Ok [OF answered])
  have "\<exists>rest. journal (snd (handleBookingRequest env bid Approved w)) = journal ?w1 @ rest"
  proof (cases "resp_error (fst (?ex (arrive env w)))")
    case (Some e)
    then show ?thesis
      by (simp add: handleBookingRequest_def handleBookingRequest_try_def Let_def first)
  next
    case None
    note no_error = this
    show ?thesis
    proof (cases "resp_data (fst (?ex (arrive env w)))")
      case None
      with no_error show ?thesis
        by (simp add: handleBookingRequest_def handleBookingRequest_try_def Let_def first)
    next
      case (Some d)
      obtain bk joined where d: "d = (bk, joined)" by (cases d)
      show ?thesis
      proof (cases joined)
        case None
        with no_error Some d show ?thesis
          by (simp add: handleBookingRequest_def handleBookingRequest_try_def Let_def first)
      next
        case (Some r)
        let ?rpc = "RpcUpdateRideSeats (r_id r) (b_seats_booked bk)"
        let ?exec = "\<lambda>s. (empty_response :: unit response,
                            update_ride_seats env (r_id r) (b_seats_booked bk) s)"
        obtain c w2 where second: "issue env ?rpc ?exec ?w1 = (c, w2)"
          by fastforce
        from issue_journal [of env ?rpc ?exec ?w1] second
        obtain s2 where "journal w2 = journal ?w1 @ [(?rpc, s2)]" by auto
        moreover have "snd (handleBookingRequest env bid Approved w) = w2"
          using no_error \<open>resp_data (fst (?ex (arrive env w))) = Some d\<close> d Some
          by (simp add: handleBookingRequest_def handleBookingRequest_try_def Let_def first second
                split: completion.splits option.splits)
        ultimately show ?thesis by simp
      qed
    qed
  qed
  then show ?thesis by (auto simp: sent_def journal_settle)
qed

text \<open>
  C3. For a booking that is pending when the status update reaches the store (the
  only row with its id, its ride row present, the update answered normally):
  \<open>handleBookingRequest\<close> with \<open>approved\<close> sends exactly two requests, the status
  update to \<open>confirmed\<close>, after which the booking's status is \<open>confirmed\<close>, and one call
  of the \<open>update_ride_seats\<close> procedure with the booking's ride id and seat count; with
  \<open>rejected\<close> it sends the status update to \<open>cancelled\<close> alone, after which the status
  is \<open>cancelled\<close> and the rides are as the request found them.
\<close>

theorem handleBookingRequest_pending:
  assumes answered: "call_outcome env (length (journal w)) = Ok"
    and one: "filter (\<lambda>b. b_id b = bid) (bookings (arrive env w)) = [b]"
    and pending: "b_status b = Pending"
    and ride: "b_ride_id b \<in> set (map r_id (rides (arrive env w)))"
  shows "(\<exists>s1 s2. sent w (snd (handleBookingRequest env bid Approved w))
              = [(UpdateBookingStatus bid Confirmed, s1),
                 (RpcUpdateRideSeats (b_ride_id b) (b_seats_booked b), s2)]
            \<and> status_of bid s1 = [Confirmed])
       \<and> (\<exists>s1. sent w (snd (handleBookingRequest env bid Rejected w))
              = [(UpdateBookingStatus bid Cancelled, s1)]
            \<and> status_of bid s1 = [Cancelled] \<and> rides s1 = rides (arrive env w))"
proof -
  from find_joined [OF ride] obtain r where
    r: "find (\<lambda>r. r_id r = b_ride_id b) (rides (arrive env w)) = Some r" "r_id r = b_ride_id b"
    by blast
  let ?s = "\<lambda>st. (arrive env w)\<lparr>bookings :=
              map (\<lambda>x. if b_id x = bid then x\<lparr>b_status := st\<rparr> else x) (bookings (arrive env w))\<rparr>"
  have st: "status_of bid (?s st) = [st]" for st
    by (simp add: status_of_rewrite status_of_one [OF one])
  have first: "issue env (UpdateBookingStatus bid st) (exec_update_booking_status bid st) w
      = (Return (ok_response (b\<lparr>b_status := st\<rparr>, Some r)), settle (UpdateBookingStatus bid st) (?s st) w)" for st
    by (simp add: issue_Ok [OF answered] exec_update_booking_status_one [OF one] r)
  have approved: "\<exists>s2. sent w (snd (handleBookingRequest env bid Approved w))
      = [(UpdateBookingStatus bid Confirmed, ?s Confirmed),
         (RpcUpdateRideSeats (b_ride_id b) (b_seats_booked b), s2)]"
  proof -
    let ?w1 = "settle (UpdateBookingStatus bid Confirmed) (?s Confirmed) w"
    let ?rq = "RpcUpdateRideSeats (b_ride_id b) (b_seats_booked b)"
    let ?exec = "\<lambda>s. (empty_response :: unit response,
                        update_ride_seats env (b_ride_id b) (b_seats_booked b) s)"
    obtain c w2 where second: "issue env ?rq ?exec ?w1 = (c, w2)"
      by fastforce
    from issue_journal [of env ?rq ?exec ?w1] second
    obtain s2 where "journal w2 = journal ?w1 @ [(?rq, s2)]" by auto
    moreover have "snd (handleBookingRequest env bid Approved w) = w2"
      by (simp add: handleBookingRequest_def handleBookingRequest_try_def Let_def first
            ok_response_def r second split: completion.splits option.splits)
    ultimately show ?thesis by (simp add: sent_def journal_settle)
  qed
  have rejected: "sent w (snd (handleBookingRequest env bid Rejected w))
      = [(UpdateBookingStatus bid Cancelled, ?s Cancelled)]"
    by (simp add: handleBookingRequest_def handleBookingRequest_try_def Let_def first ok_response_def
          settle_def sent_def)
  from approved rejected st show ?thesis by auto
qed

theorem handleBookingRequest_pending_witness:
  "(\<exists>s1 s2. sent (booked_world Pending) (snd (handleBookingRequest quiet ''b0'' Approved (booked_world Pending)))
        = [(UpdateBookingStatus ''b0'' Confirmed, s1), (RpcUpdateRideSeats ''r1'' 1, s2)]
      \<and> status_of ''b0'' s1 = [Confirmed])
   \<and> (\<exists>s1. sent (booked_world Pending) (snd (handleBookingRequest quiet ''b0'' Rejected (booked_world Pending)))
        = [(UpdateBookingStatus ''b0'' Cancelled, s1)]
      \<and> status_of ''b0'' s1 = [Cancelled] \<and> map r_available_seats (rides s1) = [2])"
  using handleBookingRequest_pending [of quiet "booked_world Pending" "''b0''" "example_booking Pending"]
  by (auto simp: scenario_defs arrive_def)

text \<open>
  C2, as stated, fails: neither function reads the current status. On a store whose
  booking \<open>b0\<close> is cancelled, \<open>handleBookingRequest\<close> with \<open>approved\<close> and
  \<open>updateBookingStatus\<close> with \<open>confirmed\<close> each leave it confirmed.
\<close>

theorem cancelled_booking_becomes_confirmed:
  "status_of ''b0'' (store (booked_world Cancelled)) = [Cancelled]
   \<and> status_of ''b0'' (store (snd (handleBookingRequest quiet ''b0'' Approved (booked_world Cancelled))))
       = [Confirmed]
   \<and> status_of ''b0'' (store (snd (updateBookingStatus quiet ''b0'' Confirmed (booked_world Cancelled))))
       = [Confirmed]"
  by (simp add: handleBookingRequest_def handleBookingRequest_try_def updateBookingStatus_def
        scenario_defs store_defs Let_def)

text \<open>
  C2, amended. For a booking that is cancelled when the request reaches the store:
  \<open>handleBookingRequest\<close> with \<open>rejected\<close> leaves it cancelled, and \<open>updateBookingStatus\<close>
  with a status other than \<open>confirmed\<close> never yields \<open>confirmed\<close>; but when the update
  is answered normally, \<open>handleBookingRequest\<close> with \<open>approved\<close> and
  \<open>updateBookingStatus\<close> with \<open>confirmed\<close> set its status to \<open>confirmed\<close>. The new
  status is the one the request names, whatever the current one.
\<close>

theorem cancelled_booking_follows_request:
  assumes cancelled: "status_of bid (arrive env w) = [Cancelled]"
  shows "status_of bid (store (snd (handleBookingRequest env bid Rejected w))) = [Cancelled]
       \<and> (st \<noteq> Confirmed \<longrightarrow>
            Confirmed \<notin> set (status_of bid (store (snd (updateBookingStatus env bid st w)))))
       \<and> (call_outcome env (length (journal w)) = Ok \<longrightarrow>
            (\<exists>s1 rest. sent w (snd (handleBookingRequest env bid Approved w))
                 = (UpdateBookingStatus bid Confirmed, s1) # rest
               \<and> status_of bid s1 = [Confirmed])
            \<and> status_of bid (store (snd (updateBookingStatus env bid Confirmed w))) = [Confirmed])"
proof -
  have after: "status_of bid (snd (exec_update_booking_status bid x (arrive env w))) = [x]" for x
    by (simp add: status_after_update cancelled)
  have rejected: "status_of bid (store (snd (handleBookingRequest env bid Rejected w))) = [Cancelled]"
    by (simp add: handle_rejected_world store_issue after cancelled)
  have other: "Confirmed \<notin> set (status_of bid (store (snd (updateBookingStatus env bid st w))))"
    if "st \<noteq> Confirmed"
    using that by (simp add: update_status_world store_issue after cancelled)
  have direct: "status_of bid (store (snd (updateBookingStatus env bid Confirmed w))) = [Confirmed]"
    if "call_outcome env (length (journal w)) = Ok"
    using that by (simp add: update_status_world store_issue after)
  have approved: "\<exists>s1 rest. sent w (snd (handleBookingRequest env bid Approved w))
                 = (UpdateBookingStatus bid Confirmed, s1) # rest
               \<and> status_of bid s1 = [Confirmed]"
    if "call_outcome env (length (journal w)) = Ok"
    using handle_approved_first [OF that, of bid] after by blast
  from rejected other direct approved show ?thesis by blast
qed

theorem cancelled_booking_follows_request_witness:
  "status_of ''b0'' (store (snd (handleBookingRequest quiet ''b0'' Rejected (booked_world Cancelled))))
     = [Cancelled]
   \<and> Confirmed \<notin> set (status_of ''b0''
       (store (snd (updateBookingStatus quiet ''b0'' Pending (booked_world Cancelled)))))
   \<and> (\<exists>s1 rest. sent (booked_world Cancelled)
           (snd (handleBookingRequest quiet ''b0'' Approved (booked_world Cancelled)))
         = (UpdateBookingStatus ''b0'' Confirmed, s1) # rest
       \<and> status_of ''b0'' s1 = [Confirmed])
   \<and> status_of ''b0'' (store (snd (updateBookingStatus quiet ''b0'' Confirmed (booked_world Cancelled))))
       = [Confirmed]"
  using cancelled_booking_follows_request [of "''b0''" quiet "booked_world Cancelled" Pending]
  by (simp add: scenario_defs arrive_def status_of_def)

section \<open>Errors as results\<close>

lemma issue_no_error:
  assumes "issue env rq exec w = (Return resp, w1)" and "resp_error resp = None"
  shows "call_outcome env (length (journal w)) = Ok \<and> length (journal w1) = Suc (length (journal w))"
  using assms
  by (cases "call_outcome env (length (journal w))")
     (auto simp: issue_def settle_def error_response_def split: prod.splits)

lemma all_answered_three:
  assumes "call_outcome env (length (journal w)) = Ok" "length (journal w1) = Suc (length (journal w))"
    and "call_outcome env (length (journal w1)) = Ok" "length (journal w2) = Suc (length (journal w1))"
    and "call_outcome env (length (journal w2)) = Ok" "length (journal w3) = Suc (length (journal w2))"
  shows "all_answered env w w3"
  using assms by (simp add: all_answered_def upt_rec)

lemma createBooking_try_Return:
  assumes "createBooking_try env params w = (Return r, w')"
  shows "cb_error r = None \<and> cb_booking r \<noteq> None \<and> all_answered env w w'"
proof -
  from assms obtain rq1 rq2 rq3
      and ex1 :: "db \<Rightarrow> ride response \<times> db"
      and ex2 :: "db \<Rightarrow> booking response \<times> db"
      and ex3 :: "db \<Rightarrow> unit response \<times> db"
      and resp1 resp2 resp3 w1 w2 b
    where i1: "issue env rq1 ex1 w = (Return resp1, w1)" "resp_error resp1 = None"
      and i2: "issue env rq2 ex2 w1 = (Return resp2, w2)" "resp_error resp2 = None"
      and i3: "issue env rq3 ex3 w2 = (Return resp3, w')" "resp_error resp3 = None"
      and r: "r = \<lparr>cb_booking = Some b, cb_error = None\<rparr>"
    unfolding createBooking_try_def
    by (fastforce split: prod.splits completion.splits option.splits if_splits)
  from issue_no_error [OF i1] issue_no_error [OF i2] issue_no_error [OF i3]
  have "all_answered env w w'" by (intro all_answered_three) auto
  with r show ?thesis by simp
qed

lemma createBooking_returns:
  "\<exists>r. fst (createBooking env params w) = Return r
      \<and> (cb_error r = None) = (cb_booking r \<noteq> None)
      \<and> (cb_error r = None) = (\<exists>x. fst (createBooking_try env params w) = Return x)
      \<and> (cb_error r \<noteq> None \<or> all_answered env w (snd (createBooking env params w)))"
proof (cases "createBooking_try env params w")
  case (Pair c w')
  show ?thesis
  proof (cases c)
    case (Return r)
    with Pair createBooking_try_Return [of env params w r w'] show ?thesis
      by (simp add: createBooking_def)
  next
    case (Throw e)
    with Pair show ?thesis by (simp add: createBooking_def)
  qed
qed

lemma updateDriverLocation_returns:
  "\<exists>r. fst (updateDriverLocation env driverId loc w) = Return r
      \<and> (ul_error r = None)
        = (time_clip (l_timestamp loc) \<noteq> None \<and> call_outcome env (length (journal w)) = Ok)"
proof (cases "time_clip (l_timestamp loc)")
  case None
  then show ?thesis
    by (simp add: updateDriverLocation_def updateDriverLocation_try_def toISOString_def)
next
  case (Some i)
  then show ?thesis
    by (cases "call_outcome env (length (journal w))")
       (simp_all add: updateDriverLocation_def updateDriverLocation_try_def toISOString_def
          issue_def exec_upsert_driver_location_def empty_response_def error_response_def Let_def)
qed

text \<open>
  C9. \<open>createBooking\<close> and \<open>updateDriverLocation\<close> never throw, whatever the input and
  however each request ends (answered, answered with an error, or rejected): each
  returns its result object. In the result of \<open>createBooking\<close> the error is null exactly
  when a booking is returned, which is exactly when the \<open>try\<close> block ran to its end,
  and whenever the error is null every request sent was answered normally. In the
  result of \<open>updateDriverLocation\<close> the error is null exactly when the timestamp is a
  valid date and the upsert was answered normally.
\<close>

theorem results_never_thrown:
  "(\<exists>r. fst (createBooking env params w) = Return r
      \<and> (cb_error r = None) = (cb_booking r \<noteq> None)
      \<and> (cb_error r = None) = (\<exists>x. fst (createBooking_try env params w) = Return x)
      \<and> (cb_error r \<noteq> None \<or> all_answered env w (snd (createBooking env params w))))
   \<and> (\<exists>r. fst (updateDriverLocation env driverId loc w) = Return r
      \<and> (ul_error r = None)
        = (time_clip (l_timestamp loc) \<noteq> None \<and> call_outcome env (length (journal w)) = Ok))"
  using createBooking_returns updateDriverLocation_returns by blast

theorem results_never_thrown_witness:
  "(\<exists>r. fst (createBooking quiet (seats_request 2) example_world) = Return r
      \<and> cb_error r = None \<and> cb_booking r \<noteq> None
      \<and> all_answered quiet example_world (snd (createBooking quiet (seats_request 2) example_world)))
   \<and> (\<exists>r. fst (updateDriverLocation quiet ''d1'' example_location example_world) = Return r
      \<and> ul_error r = None)
   \<and> (\<exists>r. fst (updateDriverLocation quiet ''d1'' (example_location\<lparr>l_timestamp := NaN\<rparr>) example_world)
          = Return r
      \<and> ul_error r \<noteq> None)"
proof -
  have ran: "\<exists>x. fst (createBooking_try quiet (seats_request 2) example_world) = Return x"
    by (simp add: createBooking_try_def scenario_defs store_defs Let_def)
  have valid: "time_clip (l_timestamp example_location) \<noteq> None"
    by (simp add: time_clip_def example_location_def)
  have invalid: "time_clip (l_timestamp (example_location\<lparr>l_timestamp := NaN\<rparr>)) = None"
    by (simp add: time_clip_def)
  have answered: "call_outcome quiet (length (journal example_world)) = Ok"
    by (simp add: quiet_def)
  from results_never_thrown [of quiet "seats_request 2" example_world "''d1''" example_location]
       results_never_thrown [of quiet "seats_request 2" example_world "''d1''"
         "example_location\<lparr>l_timestamp := NaN\<rparr>"]
       ran valid invalid answered
  show ?thesis by auto
qed

section \<open>Live location tracking\<close>












text \<open>
  C10. When the browser has no geolocation API, \<open>startLocationTracking\<close> returns the
  cancellation function that does nothing; the one-shot chain and the watch produce
  no events at all, and what it does do (one console warning) contains no call of the
  location callback and no call of the geolocation API or of a timer.
\<close>

theorem no_geolocation_no_tracking:
  assumes "\<not> geolocation br"
  shows "t_cleanup (startLocationTracking br opts) = NoOp
       \<and> t_oneshot (startLocationTracking br opts) = []
       \<and> t_watch (startLocationTracking br opts) = []
       \<and> updates (t_setup (startLocationTracking br opts)) = []
       \<and> api_calls (t_setup (startLocationTracking br opts)) = 0"
  using assms by (simp add: startLocationTracking_def Let_def)

theorem no_geolocation_no_tracking_witness:
  "t_cleanup (startLocationTracking bare_browser None) = NoOp
   \<and> t_oneshot (startLocationTracking bare_browser None) = []
   \<and> t_watch (startLocationTracking bare_browser None) = []
   \<and> updates (t_setup (startLocationTracking bare_browser None)) = []
   \<and> api_calls (t_setup (startLocationTracking bare_browser None)) = 0"
  using no_geolocation_no_tracking [of bare_browser None]
  by (simp add: bare_browser_def stubborn_browser_def)



section \<open>Geocoding\<close>

lemma geocode_scoped_fails:
  assumes "fetch_json fetch (scoped_url n) = Throw e"
  shows "geocodeLocation pf fetch n = (Return None, [scoped_url n])"
  using assms by (simp add: geocodeLocation_def geocodeLocation_try_def)

lemma geocode_scoped_match:
  assumes "fetch_json fetch (scoped_url n) = Return (JsonArray (p # ps))"
  shows "geocodeLocation pf fetch n = (Return (Some (located pf p)), [scoped_url n])"
  using assms
  by (simp add: geocodeLocation_def geocodeLocation_try_def no_results_def first_match_def)

lemma geocode_unscoped_fails:
  assumes "fetch_json fetch (scoped_url n) = Return d" and "d = JsonNull \<or> d = JsonArray []"
    and "fetch_json fetch (unscoped_url n) = Throw e"
  shows "geocodeLocation pf fetch n = (Return None, [scoped_url n, unscoped_url n])"
  using assms by (auto simp: geocodeLocation_def geocodeLocation_try_def no_results_def)

lemma geocode_unscoped_empty:
  assumes "fetch_json fetch (scoped_url n) = Return d" and "d = JsonNull \<or> d = JsonArray []"
    and "fetch_json fetch (unscoped_url n) = Return d'" and "d' = JsonNull \<or> d' = JsonArray []"
  shows "geocodeLocation pf fetch n = (Return None, [scoped_url n, unscoped_url n])"
  using assms
  by (auto simp: geocodeLocation_def geocodeLocation_try_def no_results_def first_match_def)

lemma geocode_unscoped_match:
  assumes "fetch_json fetch (scoped_url n) = Return d" and "d = JsonNull \<or> d = JsonArray []"
    and "fetch_json fetch (unscoped_url n) = Return (JsonArray (p # ps))"
  shows "geocodeLocation pf fetch n = (Return (Some (located pf p)), [scoped_url n, unscoped_url n])"
  using assms
  by (auto simp: geocodeLocation_def geocodeLocation_try_def no_results_def first_match_def)

lemma fetch_json_raw:
  "fetch url = FetchRejects e \<Longrightarrow> fetch_json fetch url = Throw e"
  "fetch url = Responds r \<Longrightarrow> \<not> hr_ok r \<Longrightarrow>
     fetch_json fetch url = Throw (JsError (''Geocoding failed: '' @ hr_statusText r))"
  "fetch url = Responds r \<Longrightarrow> hr_ok r \<Longrightarrow> fetch_json fetch url = hr_json r"
  by (simp_all add: fetch_json_def)

text \<open>
  C8. \<open>geocodeLocation\<close>, case by case on what the network hands back. The first URL
  fetched is the input with \<open>, Gujarat, India\<close> appended. If that fetch rejects, or its
  response is not ok, or its body does not parse, the result is null and nothing else
  is fetched. If it answers with a non-empty list, the result is the first entry (its
  parsed coordinates and the part of its display name before the first comma) and
  nothing else is fetched. Only if it answers with null or an empty list is the
  unscoped URL fetched; then the result is the first entry of that answer when it has
  one, and null when that answer is empty, or that fetch rejects, or its response is
  not ok, or its body does not parse. In no case does the function throw.
\<close>

theorem geocodeLocation_scoped_then_unscoped:
  "scoped_url locationName = unscoped_url locationName @ '', Gujarat, India''
   \<and> (\<forall>e. fetch (scoped_url locationName) = FetchRejects e \<longrightarrow>
         geocodeLocation parseFloat fetch locationName = (Return None, [scoped_url locationName]))
   \<and> (\<forall>r. fetch (scoped_url locationName) = Responds r \<and> \<not> hr_ok r \<longrightarrow>
         geocodeLocation parseFloat fetch locationName = (Return None, [scoped_url locationName]))
   \<and> (\<forall>r e. fetch (scoped_url locationName) = Responds r \<and> hr_ok r \<and> hr_json r = Throw e \<longrightarrow>
         geocodeLocation parseFloat fetch locationName = (Return None, [scoped_url locationName]))
   \<and> (\<forall>r p ps. fetch (scoped_url locationName) = Responds r \<and> hr_ok r
            \<and> hr_json r = Return (JsonArray (p # ps)) \<longrightarrow>
         geocodeLocation parseFloat fetch locationName
           = (Return (Some (located parseFloat p)), [scoped_url locationName]))
   \<and> (\<forall>r. fetch (scoped_url locationName) = Responds r \<and> hr_ok r
            \<and> (hr_json r = Return JsonNull \<or> hr_json r = Return (JsonArray [])) \<longrightarrow>
         (\<forall>e. fetch (unscoped_url locationName) = FetchRejects e \<longrightarrow>
            geocodeLocation parseFloat fetch locationName
              = (Return None, [scoped_url locationName, unscoped_url locationName]))
       \<and> (\<forall>r'. fetch (unscoped_url locationName) = Responds r' \<and> \<not> hr_ok r' \<longrightarrow>
            geocodeLocation parseFloat fetch locationName
              = (Return None, [scoped_url locationName, unscoped_url locationName]))
       \<and> (\<forall>r' e. fetch (unscoped_url locationName) = Responds r' \<and> hr_ok r'
               \<and> hr_json r' = Throw e \<longrightarrow>
            geocodeLocation parseFloat fetch locationName
              = (Return None, [scoped_url locationName, unscoped_url locationName]))
       \<and> (\<forall>r'. fetch (unscoped_url locationName) = Responds r' \<and> hr_ok r'
               \<and> (hr_json r' = Return JsonNull \<or> hr_json r' = Return (JsonArray [])) \<longrightarrow>
            geocodeLocation parseFloat fetch locationName
              = (Return None, [scoped_url locationName, unscoped_url locationName]))
       \<and> (\<forall>r' p ps. fetch (unscoped_url locationName) = Responds r' \<and> hr_ok r'
               \<and> hr_json r' = Return (JsonArray (p # ps)) \<longrightarrow>
            geocodeLocation parseFloat fetch locationName
              = (Return (Some (located parseFloat p)),
                 [scoped_url locationName, unscoped_url locationName])))"
proof -
  have urls: "scoped_url locationName = unscoped_url locationName @ '', Gujarat, India''"
    by (simp add: scoped_url_def unscoped_url_def)
  have first_fails:
    "geocodeLocation parseFloat fetch locationName = (Return None, [scoped_url locationName])"
    if "fetch (scoped_url locationName) = FetchRejects e
        \<or> (\<exists>r. fetch (scoped_url locationName) = Responds r
                 \<and> (\<not> hr_ok r \<or> hr_json r = Throw e))" for e
  proof -
    from that have "\<exists>e'. fetch_json fetch (scoped_url locationName) = Throw e'"
      by (auto simp: fetch_json_def)
    then show ?thesis by (auto intro: geocode_scoped_fails)
  qed
  have first_match:
    "geocodeLocation parseFloat fetch locationName
       = (Return (Some (located parseFloat p)), [scoped_url locationName])"
    if "fetch (scoped_url locationName) = Responds r" "hr_ok r"
       "hr_json r = Return (JsonArray (p # ps))" for r p ps
    using that by (auto simp: fetch_json_raw intro: geocode_scoped_match)
  have second:
    "(\<forall>e. fetch (unscoped_url locationName) = FetchRejects e \<longrightarrow>
            geocodeLocation parseFloat fetch locationName
              = (Return None, [scoped_url locationName, unscoped_url locationName]))
       \<and> (\<forall>r'. fetch (unscoped_url locationName) = Responds r' \<and> \<not> hr_ok r' \<longrightarrow>
            geocodeLocation parseFloat fetch locationName
              = (Return None, [scoped_url locationName, unscoped_url locationName]))
       \<and> (\<forall>r' e. fetch (unscoped_url locationName) = Responds r' \<and> hr_ok r'
               \<and> hr_json r' = Throw e \<longrightarrow>
            geocodeLocation parseFloat fetch locationName
              = (Return None, [scoped_url locationName, unscoped_url locationName]))
       \<and> (\<forall>r'. fetch (unscoped_url locationName) = Responds r' \<and> hr_ok r'
               \<and> (hr_json r' = Return JsonNull \<or> hr_json r' = Return (JsonArray [])) \<longrightarrow>
            geocodeLocation parseFloat fetch locationName
              = (Return None, [scoped_url locationName, unscoped_url locationName]))
       \<and> (\<forall>r' p ps. fetch (unscoped_url locationName) = Responds r' \<and> hr_ok r'
               \<and> hr_json r' = Return (JsonArray (p # ps)) \<longrightarrow>
            geocodeLocation parseFloat fetch locationName
              = (Return (Some (located parseFloat p)),
                 [scoped_url locationName, unscoped_url locationName]))"
    if r: "fetch (scoped_url locationName) = Responds r" "hr_ok r"
      and empty: "hr_json r = Return JsonNull \<or> hr_json r = Return (JsonArray [])" for r
  proof -
    from empty obtain d where d: "hr_json r = Return d" "d = JsonNull \<or> d = JsonArray []"
      by auto
    from r d have scoped: "fetch_json fetch (scoped_url locationName) = Return d"
      by (simp add: fetch_json_raw)
    show ?thesis
    proof (intro conjI allI impI)
      fix e assume "fetch (unscoped_url locationName) = FetchRejects e"
      then have "fetch_json fetch (unscoped_url locationName) = Throw e"
        by (simp add: fetch_json_raw)
      from geocode_unscoped_fails [OF scoped d(2) this]
      show "geocodeLocation parseFloat fetch locationName
              = (Return None, [scoped_url locationName, unscoped_url locationName])" .
    next
      fix r' assume "fetch (unscoped_url locationName) = Responds r' \<and> \<not> hr_ok r'"
      then have "fetch_json fetch (unscoped_url locationName)
          = Throw (JsError (''Geocoding failed: '' @ hr_statusText r'))"
        by (simp add: fetch_json_raw)
      from geocode_unscoped_fails [OF scoped d(2) this]
      show "geocodeLocation parseFloat fetch locationName
              = (Return None, [scoped_url locationName, unscoped_url locationName])" .
    next
      fix r' e assume "fetch (unscoped_url locationName) = Responds r' \<and> hr_ok r'
               \<and> hr_json r' = Throw e"
      then have "fetch_json fetch (unscoped_url locationName) = Throw e"
        by (simp add: fetch_json_raw)
      from geocode_unscoped_fails [OF scoped d(2) this]
      show "geocodeLocation parseFloat fetch locationName
              = (Return None, [scoped_url locationName, unscoped_url locationName])" .
    next
      fix r' assume a: "fetch (unscoped_url locationName) = Responds r' \<and> hr_ok r'
               \<and> (hr_json r' = Return JsonNull \<or> hr_json r' = Return (JsonArray []))"
      then obtain d' where d': "hr_json r' = Return d'" "d' = JsonNull \<or> d' = JsonArray []"
        by auto
      with a have "fetch_json fetch (unscoped_url locationName) = Return d'"
        by (simp add: fetch_json_raw)
      from geocode_unscoped_empty [OF scoped d(2) this d'(2)]
      show "geocodeLocation parseFloat fetch locationName
              = (Return None, [scoped_url locationName, unscoped_url locationName])" .
    next
      fix r' p ps assume "fetch (unscoped_url locationName) = Responds r' \<and> hr_ok r'
               \<and> hr_json r' = Return (JsonArray (p # ps))"
      then have "fetch_json fetch (unscoped_url locationName) = Return (JsonArray (p # ps))"
        by (simp add: fetch_json_raw)
      from geocode_unscoped_match [OF scoped d(2) this]
      show "geocodeLocation parseFloat fetch locationName
              = (Return (Some (located parseFloat p)),
                 [scoped_url locationName, unscoped_url locationName])" .
    qed
  qed
  from urls first_fails first_match second show ?thesis
    by (intro conjI allI impI) blast+
qed

theorem geocodeLocation_scoped_then_unscoped_witness:
  "geocodeLocation example_parseFloat offline_service ''Mumbai''
     = (Return None,
        [''https://nominatim.openstreetmap.org/search?format=json&q=Mumbai, Gujarat, India''])
   \<and> geocodeLocation example_parseFloat refusing_service ''Mumbai''
     = (Return None,
        [''https://nominatim.openstreetmap.org/search?format=json&q=Mumbai, Gujarat, India''])
   \<and> geocodeLocation example_parseFloat garbled_service ''Mumbai''
     = (Return None,
        [''https://nominatim.openstreetmap.org/search?format=json&q=Mumbai, Gujarat, India''])
   \<and> geocodeLocation example_parseFloat regional_service ''Surat''
     = (Return (Some \<lparr>g_lat = Fin 21.17, g_lng = Fin 72.83, g_name = ''Surat''\<rparr>),
        [''https://nominatim.openstreetmap.org/search?format=json&q=Surat, Gujarat, India''])
   \<and> geocodeLocation example_parseFloat example_service ''Mumbai''
     = (Return (Some \<lparr>g_lat = Fin 19.07, g_lng = Fin 72.87, g_name = ''Mumbai''\<rparr>),
        [''https://nominatim.openstreetmap.org/search?format=json&q=Mumbai, Gujarat, India'',
         ''https://nominatim.openstreetmap.org/search?format=json&q=Mumbai''])
   \<and> geocodeLocation example_parseFloat example_service ''Nowhere''
     = (Return None,
        [''https://nominatim.openstreetmap.org/search?format=json&q=Nowhere, Gujarat, India'',
         ''https://nominatim.openstreetmap.org/search?format=json&q=Nowhere''])
   \<and> geocodeLocation example_parseFloat fading_service ''Mumbai''
     = (Return None,
        [''https://nominatim.openstreetmap.org/search?format=json&q=Mumbai, Gujarat, India'',
         ''https://nominatim.openstreetmap.org/search?format=json&q=Mumbai''])"
proof -
  have plain: "encodeURIComponent ''Mumbai'' = ''Mumbai''"
    "encodeURIComponent ''Nowhere'' = ''Nowhere''"
    "encodeURIComponent ''Surat'' = ''Surat''"
    by (simp_all add: encodeURIComponent_def unreserved_def)
  have urls:
    "scoped_url ''Mumbai''
       = ''https://nominatim.openstreetmap.org/search?format=json&q=Mumbai, Gujarat, India''"
    "unscoped_url ''Mumbai'' = ''https://nominatim.openstreetmap.org/search?format=json&q=Mumbai''"
    "scoped_url ''Nowhere''
       = ''https://nominatim.openstreetmap.org/search?format=json&q=Nowhere, Gujarat, India''"
    "unscoped_url ''Nowhere'' = ''https://nominatim.openstreetmap.org/search?format=json&q=Nowhere''"
    "scoped_url ''Surat''
       = ''https://nominatim.openstreetmap.org/search?format=json&q=Surat, Gujarat, India''"
    by (simp_all add: scoped_url_def unscoped_url_def nominatimUrl_def plain)
  note services = offline_service_def refusing_service_def garbled_service_def
    regional_service_def example_service_def fading_service_def nominatimUrl_def
  note parsed = located_def example_place_def example_parseFloat_def
  have offline: "geocodeLocation example_parseFloat offline_service ''Mumbai''
      = (Return None, [scoped_url ''Mumbai''])"
    using geocodeLocation_scoped_then_unscoped
      [where locationName = "''Mumbai''" and fetch = offline_service
         and parseFloat = example_parseFloat]
    by (simp add: services)
  have refusing: "geocodeLocation example_parseFloat refusing_service ''Mumbai''
      = (Return None, [scoped_url ''Mumbai''])"
    using geocodeLocation_scoped_then_unscoped
      [where locationName = "''Mumbai''" and fetch = refusing_service
         and parseFloat = example_parseFloat]
    by (simp add: services)
  have garbled: "geocodeLocation example_parseFloat garbled_service ''Mumbai''
      = (Return None, [scoped_url ''Mumbai''])"
    using geocodeLocation_scoped_then_unscoped
      [where locationName = "''Mumbai''" and fetch = garbled_service
         and parseFloat = example_parseFloat]
    by (simp add: services)
  have regional: "geocodeLocation example_parseFloat regional_service ''Surat''
      = (Return (Some \<lparr>g_lat = Fin 21.17, g_lng = Fin 72.83, g_name = ''Surat''\<rparr>),
         [scoped_url ''Surat''])"
    using geocodeLocation_scoped_then_unscoped
      [where locationName = "''Surat''" and fetch = regional_service
         and parseFloat = example_parseFloat]
    by (simp add: services parsed)
  have found: "geocodeLocation example_parseFloat example_service ''Mumbai''
      = (Return (Some \<lparr>g_lat = Fin 19.07, g_lng = Fin 72.87, g_name = ''Mumbai''\<rparr>),
         [scoped_url ''Mumbai'', unscoped_url ''Mumbai''])"
    using geocodeLocation_scoped_then_unscoped
      [where locationName = "''Mumbai''" and fetch = example_service
         and parseFloat = example_parseFloat]
    by (simp add: urls services parsed)
  have nowhere: "geocodeLocation example_parseFloat example_service ''Nowhere''
      = (Return None, [scoped_url ''Nowhere'', unscoped_url ''Nowhere''])"
    using geocodeLocation_scoped_then_unscoped
      [where locationName = "''Nowhere''" and fetch = example_service
         and parseFloat = example_parseFloat]
    by (simp add: urls services parsed)
  have fading: "geocodeLocation example_parseFloat fading_service ''Mumbai''
      = (Return None, [scoped_url ''Mumbai'', unscoped_url ''Mumbai''])"
    using geocodeLocation_scoped_then_unscoped
      [where locationName = "''Mumbai''" and fetch = fading_service
         and parseFloat = example_parseFloat]
    by (simp add: urls services parsed)
  from offline refusing garbled regional found nowhere fading show ?thesis
    by (simp add: urls)
qed

end
